theory Spec2Isabelle
  imports Main "HOL-Library.Log_Nat"
begin

section \<open>Python values, exceptions and floating-point arithmetic\<close>

text \<open>
  The lighting manager of \<^verbatim>\<open>daemon/lighting_manager/__init__.py\<close> is embedded function by
  function. Exceptions are values of the type \<open>error\<close>, named after the Python exception
  raised; a function that can raise returns \<open>error + 'a\<close> with \<open>Inl\<close> for the exception.
\<close>

datatype error =
  KeyError | TypeError | ValueError | IndexError | AttributeError | ZeroDivisionError | OverflowError

text \<open>
  The values a configuration hands to the effect constructors: integers, strings and
  sequences (lists or tuples). Strings are taken to be ASCII.
\<close>

datatype pyval = PInt int | PStr string | PSeq "pyval list"

type_synonym rgb = "pyval \<times> pyval \<times> pyval"

definition bind_err :: "error + 'a \<Rightarrow> ('a \<Rightarrow> error + 'b) \<Rightarrow> error + 'b" where
  "bind_err m f = (case m of Inl e \<Rightarrow> Inl e | Inr x \<Rightarrow> f x)"

text \<open>
  A Python \<^verbatim>\<open>float\<close> is an IEEE 754 binary64 number. A finite one is modelled by its exact
  rational value, and every arithmetic operation rounds the exact result with \<open>fl\<close>: to the
  nearest number with a 53-bit significand, ties to the even significand. The exponent
  range is not bounded, so \<open>fl\<close> is the binary64 rounding wherever the result is zero or of
  a magnitude in the normal range (between \<open>2 powi -1022\<close> and \<open>2 powi 1024\<close>), which holds
  for LED channels, brightness levels, angles and temperatures.
\<close>

definition round_half_even :: "rat \<Rightarrow> int" where
  "round_half_even x =
     (let f = \<lfloor>x\<rfloor>; r = x - of_int f
      in if r < 1 / 2 then f else if 1 / 2 < r then f + 1 else if even f then f else f + 1)"

text \<open>\<open>floor_log2 q\<close> is the \<open>e\<close> with \<open>2 powi e \<le> q < 2 powi (e + 1)\<close>, for \<open>q > 0\<close>.\<close>

definition floor_log2 :: "rat \<Rightarrow> int" where
  "floor_log2 q =
     (let k = bitlen (fst (quotient_of q)) - bitlen (snd (quotient_of q))
      in if 2 powi k \<le> q then k else k - 1)"

definition fl :: "rat \<Rightarrow> rat" where
  "fl q = (if q = 0 then 0
           else let e = floor_log2 \<bar>q\<bar> - 52
                in sgn q * of_int (round_half_even (\<bar>q\<bar> / 2 powi e)) * 2 powi e)"

text \<open>\<^verbatim>\<open>int(x)\<close> of a float truncates towards zero.\<close>

definition py_int :: "rat \<Rightarrow> int" where
  "py_int q = (if 0 \<le> q then \<lfloor>q\<rfloor> else \<lceil>q\<rceil>)"

text \<open>\<^verbatim>\<open>a / b\<close> on two integers is the correctly rounded quotient, and raises on \<open>b = 0\<close>.\<close>

definition int_truediv :: "int \<Rightarrow> int \<Rightarrow> error + rat" where
  "int_truediv a b = (if b = 0 then Inl ZeroDivisionError else Inr (fl (of_int a / of_int b)))"

text \<open>An integer operand of a float operation is first converted to a float.\<close>

definition float_of_int :: "int \<Rightarrow> rat" where
  "float_of_int i = fl (of_int i)"

definition float_mul :: "rat \<Rightarrow> rat \<Rightarrow> rat" where
  "float_mul x y = fl (x * y)"

definition float_add :: "rat \<Rightarrow> rat \<Rightarrow> rat" where
  "float_add x y = fl (x + y)"

definition float_sub :: "rat \<Rightarrow> rat \<Rightarrow> rat" where
  "float_sub x y = fl (x - y)"

text \<open>
  \<^verbatim>\<open>xs[i]\<close> on a list of length \<open>n\<close>: the indices from \<open>0\<close> up to \<open>n - 1\<close> read from the
  front, those from \<open>- n\<close> up to \<open>- 1\<close> from the back, every other index raises.
\<close>

definition py_index :: "'a list \<Rightarrow> int \<Rightarrow> error + 'a" where
  "py_index xs i =
     (if 0 \<le> i \<and> i < int (length xs) then Inr (xs ! nat i)
      else if i < 0 \<and> - int (length xs) \<le> i then Inr (xs ! nat (int (length xs) + i))
      else Inl IndexError)"

text \<open>
  A comparison or an arithmetic operation between a number and a string or a sequence
  raises \<^verbatim>\<open>TypeError\<close>.
\<close>

fun as_number :: "pyval \<Rightarrow> error + int" where
  "as_number (PInt i) = Inr i"
| "as_number (PStr s) = Inl TypeError"
| "as_number (PSeq vs) = Inl TypeError"

section \<open>Calling a constructor\<close>

text \<open>
  \<^verbatim>\<open>f(*args, **kwargs)\<close> binds the positional arguments to the first parameters, then the
  keyword arguments by name, then the defaults. Too many positional arguments, an unknown
  keyword, a parameter given twice and a parameter left without a value each raise
  \<^verbatim>\<open>TypeError\<close>. The result lists the values in the order of the parameters.
\<close>

definition bind_params ::
  "string list \<Rightarrow> (string \<times> pyval) list \<Rightarrow> pyval list \<Rightarrow> (string \<times> pyval) list \<Rightarrow> error + pyval list"
where
  "bind_params names defaults args kwargs =
     (if length names < length args then Inl TypeError
      else if list_ex (\<lambda>k. k \<notin> set names \<or> k \<in> set (take (length args) names))
                (map fst kwargs)
      then Inl TypeError
      else (case those (map (map_of (zip names args @ kwargs @ defaults)) names) of
              None \<Rightarrow> Inl TypeError
            | Some vs \<Rightarrow> Inr vs))"

text \<open>
  \<^verbatim>\<open>a, b, c = v\<close> needs an iterable of exactly three items: a sequence of another length
  raises \<^verbatim>\<open>ValueError\<close>, a string of three characters yields its characters, an integer
  raises \<^verbatim>\<open>TypeError\<close>.
\<close>

fun unpack3 :: "pyval \<Rightarrow> error + rgb" where
  "unpack3 (PSeq [x, y, z]) = Inr (x, y, z)"
| "unpack3 (PSeq vs) = Inl ValueError"
| "unpack3 (PStr [x, y, z]) = Inr (PStr [x], PStr [y], PStr [z])"
| "unpack3 (PStr s) = Inl ValueError"
| "unpack3 (PInt i) = Inl TypeError"

section \<open>Lighting effects\<close>

text \<open>
  \<^verbatim>\<open>compass_to_rgb\<close> is imported from \<^verbatim>\<open>daemon.lighting_manager.utils.colours\<close>, which is not
  part of the sources at hand: it is a parameter of every function that calls it, a function
  from an angle to three integer channels.
\<close>

type_synonym hue = "rat \<Rightarrow> int \<times> int \<times> int"

definition rgb_of :: "int \<times> int \<times> int \<Rightarrow> rgb" where
  "rgb_of c = (case c of (x, y, z) \<Rightarrow> (PInt x, PInt y, PInt z))"

record alternating =
  even_r :: pyval
  even_g :: pyval
  even_b :: pyval
  odd_r :: pyval
  odd_g :: pyval
  odd_b :: pyval
  odd_flag :: bool

record rgb_spectrum =
  num_iters :: int
  compass_to_rgb_map :: "(int \<times> int \<times> int) list"

text \<open>\<^verbatim>\<open>SpinningRGBSpectrumLightingEffect\<close> inherits the fields of \<^verbatim>\<open>RGBSpectrumLightingEffect\<close>.\<close>

record spinning_rgb_spectrum = rgb_spectrum +
  rotation :: int

record temperature =
  sensor_name :: pyval
  cur_temp :: rat
  angle :: rat
  cold :: pyval
  target :: pyval
  hot :: pyval
  cold_angle :: int
  target_angle :: int
  hot_angle :: int

datatype effect =
    Static pyval pyval pyval
  | Alternating alternating
  | RGBSpectrum rgb_spectrum
  | SpinningRGBSpectrum spinning_rgb_spectrum
  | Temperature temperature

subsection \<open>Constructors\<close>


definition AlternatingLightingEffect :: "pyval list \<Rightarrow> (string \<times> pyval) list \<Rightarrow> error + effect" where
  "AlternatingLightingEffect args kwargs =
     bind_err (bind_params [''even_rgb_matrix'', ''odd_rgb_matrix''] [] args kwargs)
       (\<lambda>vs. bind_err (unpack3 (vs ! 0))
          (\<lambda>(er, eg, eb). bind_err (unpack3 (vs ! 1))
             (\<lambda>(pr, pg, pb). Inr (Alternating
                \<lparr>even_r = er, even_g = eg, even_b = eb,
                 odd_r = pr, odd_g = pg, odd_b = pb, odd_flag = True\<rparr>))))"

definition rgb_spectrum_init :: "hue \<Rightarrow> rgb_spectrum" where
  "rgb_spectrum_init compass_to_rgb =
     \<lparr>num_iters = 0, compass_to_rgb_map = map (\<lambda>ang. compass_to_rgb (of_nat ang)) [0..<360]\<rparr>"

definition RGBSpectrumLightingEffect :: "hue \<Rightarrow> effect" where
  "RGBSpectrumLightingEffect compass_to_rgb = RGBSpectrum (rgb_spectrum_init compass_to_rgb)"

definition SpinningRGBSpectrumLightingEffect :: "hue \<Rightarrow> effect" where
  "SpinningRGBSpectrumLightingEffect compass_to_rgb =
     SpinningRGBSpectrum
       \<lparr>num_iters = num_iters (rgb_spectrum_init compass_to_rgb),
        compass_to_rgb_map = compass_to_rgb_map (rgb_spectrum_init compass_to_rgb),
        rotation = 0\<rparr>"

definition TemperatureLightingEffect :: "pyval list \<Rightarrow> (string \<times> pyval) list \<Rightarrow> error + effect" where
  "TemperatureLightingEffect args kwargs =
     bind_err (bind_params [''sensor_name'', ''hot'', ''target'', ''cold'']
                 [(''hot'', PInt 60), (''target'', PInt 30), (''cold'', PInt 20)] args kwargs)
       (\<lambda>vs. Inr (Temperature
          \<lparr>sensor_name = vs ! 0, cur_temp = 0, angle = 0,
           cold = vs ! 3, target = vs ! 2, hot = vs ! 1,
           cold_angle = 240, target_angle = 120, hot_angle = 0\<rparr>))"

subsection \<open>\<^verbatim>\<open>begin_dev\<close>, \<^verbatim>\<open>begin_all\<close> and \<^verbatim>\<open>next\<close>\<close>

text \<open>\<^verbatim>\<open>begin_dev\<close> resets the counter of the two spectrum effects and is inherited as a no-op by the others.\<close>

fun begin_dev :: "effect \<Rightarrow> effect" where
  "begin_dev (RGBSpectrum s) = RGBSpectrum (s\<lparr>num_iters := 0\<rparr>)"
| "begin_dev (SpinningRGBSpectrum s) = SpinningRGBSpectrum (s\<lparr>num_iters := 0\<rparr>)"
| "begin_dev e = e"

definition spinning_begin_all :: "spinning_rgb_spectrum \<Rightarrow> spinning_rgb_spectrum" where
  "spinning_begin_all s =
     (let s1 = (if rotation s > 11 then s\<lparr>rotation := 0\<rparr> else s)
      in s1\<lparr>rotation := rotation s1 + 1\<rparr>)"

text \<open>
  \<^verbatim>\<open>sensors_temperatures()\<close> of psutil is the environment \<open>sensors\<close>: the \<^verbatim>\<open>current\<close> values of
  the readings of each sensor name. \<^verbatim>\<open>.get(name)\<close> is \<^verbatim>\<open>None\<close> for a name that is absent (and
  for a name that is no string), and \<^verbatim>\<open>None[0]\<close> raises \<^verbatim>\<open>TypeError\<close>; an empty list of
  readings raises \<^verbatim>\<open>IndexError\<close>. The \<^verbatim>\<open>print\<close> of the angle is not modelled.
\<close>

definition sensor_get :: "(string \<rightharpoonup> rat list) \<Rightarrow> pyval \<Rightarrow> rat list option" where
  "sensor_get sensors name = (case name of PStr s \<Rightarrow> sensors s | PInt i \<Rightarrow> None | PSeq vs \<Rightarrow> None)"

definition temperature_begin_all :: "(string \<rightharpoonup> rat list) \<Rightarrow> temperature \<Rightarrow> error + temperature" where
  "temperature_begin_all sensors t =
     (case sensor_get sensors (sensor_name t) of
        None \<Rightarrow> Inl TypeError
      | Some [] \<Rightarrow> Inl IndexError
      | Some (cur # rest) \<Rightarrow>
          (let t1 = t\<lparr>cur_temp := cur\<rparr> in
           bind_err (as_number (cold t1)) (\<lambda>c.
             if cur \<le> of_int c then Inr (t1\<lparr>angle := of_int (cold_angle t1)\<rparr>)
             else bind_err (as_number (target t1)) (\<lambda>tg.
               if cur < of_int tg then
                 bind_err (int_truediv (cold_angle t1 - target_angle t1) (tg - c)) (\<lambda>slope.
                   Inr (t1\<lparr>angle := float_mul slope (float_sub (float_of_int tg) cur)\<rparr>))
               else if cur = of_int tg then Inr (t1\<lparr>angle := of_int (target_angle t1)\<rparr>)
               else bind_err (as_number (hot t1)) (\<lambda>h.
                 if of_int h < cur then Inr (t1\<lparr>angle := of_int (hot_angle t1)\<rparr>)
                 else if of_int tg < cur then
                   bind_err (int_truediv (target_angle t1 - hot_angle t1) (h - tg)) (\<lambda>slope.
                     Inr (t1\<lparr>angle := float_sub 120
                                (float_mul slope (float_sub cur (float_of_int tg)))\<rparr>))
                 else Inr t1)))))"

fun begin_all :: "(string \<rightharpoonup> rat list) \<Rightarrow> effect \<Rightarrow> error + effect" where
  "begin_all sensors (SpinningRGBSpectrum s) = Inr (SpinningRGBSpectrum (spinning_begin_all s))"
| "begin_all sensors (Temperature t) =
     bind_err (temperature_begin_all sensors t) (\<lambda>t'. Inr (Temperature t'))"
| "begin_all sensors e = Inr e"

text \<open>
  \<^verbatim>\<open>next\<close> returns the colour of the next LED and the effect as it has left it.
  \<^verbatim>\<open>360/12\<close> is a float, so the table index and the angle are computed in floats.
\<close>

definition rgb_spectrum_next :: "rgb_spectrum \<Rightarrow> error + (rgb \<times> rgb_spectrum)" where
  "rgb_spectrum_next s =
     (let s' = s\<lparr>num_iters := num_iters s + 1\<rparr> in
      bind_err (int_truediv 360 12) (\<lambda>step.
        bind_err (py_index (compass_to_rgb_map s')
                    (py_int (float_mul step (float_of_int (num_iters s')))))
          (\<lambda>c. Inr (rgb_of c, s'))))"

definition spinning_next :: "hue \<Rightarrow> spinning_rgb_spectrum \<Rightarrow> error + (rgb \<times> spinning_rgb_spectrum)" where
  "spinning_next compass_to_rgb s =
     (let s' = s\<lparr>num_iters := num_iters s + 1\<rparr> in
      bind_err (int_truediv 360 12) (\<lambda>step.
        Inr (rgb_of (compass_to_rgb
               (float_add (float_mul step (float_of_int (num_iters s')))
                          (float_mul step (float_of_int (rotation s'))))), s')))"

fun effect_next :: "hue \<Rightarrow> effect \<Rightarrow> error + (rgb \<times> effect)" where
  "effect_next compass_to_rgb (Static r g b) = Inr ((g, r, b), Static r g b)"
| "effect_next compass_to_rgb (Alternating a) =
     (if odd_flag a then Inr ((odd_g a, odd_r a, odd_b a), Alternating (a\<lparr>odd_flag := False\<rparr>))
      else Inr ((even_g a, even_r a, even_b a), Alternating (a\<lparr>odd_flag := True\<rparr>)))"
| "effect_next compass_to_rgb (RGBSpectrum s) =
     bind_err (rgb_spectrum_next s) (\<lambda>(c, s'). Inr (c, RGBSpectrum s'))"
| "effect_next compass_to_rgb (SpinningRGBSpectrum s) =
     bind_err (spinning_next compass_to_rgb s) (\<lambda>(c, s'). Inr (c, SpinningRGBSpectrum s'))"
| "effect_next compass_to_rgb (Temperature t) =
     Inr (rgb_of (compass_to_rgb (angle t)), Temperature t)"

section \<open>The controller\<close>

record controller =
  lighting_effect :: effect
  brightness_level :: int
  update_msec :: int

definition LightingController :: "effect \<Rightarrow> controller" where
  "LightingController e = \<lparr>lighting_effect = e, brightness_level = 100, update_msec = 100\<rparr>"

text \<open>
  A device has a number of LEDs and a sink \<^verbatim>\<open>set_lighting\<close>; \<open>lit\<close> lists the frames the
  sink has received, the latest last.
\<close>

record device =
  num_leds :: int
  lit :: "int list list"

definition set_lighting :: "device \<Rightarrow> int list \<Rightarrow> device" where
  "set_lighting dev data = dev\<lparr>lit := lit dev @ [data]\<rparr>"

text \<open>\<^verbatim>\<open>int(i/100*self.brightness_level)\<close>: an integer division, a float product, a truncation.\<close>

definition scale_channel :: "int \<Rightarrow> pyval \<Rightarrow> error + int" where
  "scale_channel level v =
     bind_err (as_number v) (\<lambda>i.
       bind_err (int_truediv i 100) (\<lambda>x.
         Inr (py_int (float_mul x (float_of_int level)))))"

fun scale_all :: "int \<Rightarrow> pyval list \<Rightarrow> error + int list" where
  "scale_all level [] = Inr []"
| "scale_all level (v # vs) =
     bind_err (scale_channel level v) (\<lambda>x. bind_err (scale_all level vs) (\<lambda>xs. Inr (x # xs)))"

definition brightness_processor :: "controller \<Rightarrow> rgb \<Rightarrow> error + int list" where
  "brightness_processor c colour =
     (if brightness_level c = 0 then Inr [0, 0, 0]
      else case colour of (x, y, z) \<Rightarrow> scale_all (brightness_level c) [x, y, z])"

text \<open>The loop \<^verbatim>\<open>for i in range(device.num_leds)\<close> of \<^verbatim>\<open>main\<close>, with the LEDs still to do.\<close>

fun led_loop :: "hue \<Rightarrow> nat \<Rightarrow> controller \<Rightarrow> int list \<Rightarrow> error + (int list \<times> controller)" where
  "led_loop compass_to_rgb 0 c data = Inr (data, c)"
| "led_loop compass_to_rgb (Suc n) c data =
     bind_err (effect_next compass_to_rgb (lighting_effect c)) (\<lambda>(colour, e').
       bind_err (brightness_processor c colour) (\<lambda>xs.
         led_loop compass_to_rgb n (c\<lparr>lighting_effect := e'\<rparr>) (data @ xs)))"

definition main :: "hue \<Rightarrow> controller \<Rightarrow> device \<Rightarrow> error + ((int list \<times> int) \<times> controller)" where
  "main compass_to_rgb c dev =
     (let c1 = c\<lparr>lighting_effect := begin_dev (lighting_effect c)\<rparr> in
      bind_err (led_loop compass_to_rgb (nat (num_leds dev)) c1 [])
        (\<lambda>(data, c2). Inr ((data, update_msec c2), c2)))"

section \<open>The manager\<close>

text \<open>
  The manager without its thread: the flag \<^verbatim>\<open>_continue\<close>, the attached devices and the
  controller, which is \<^verbatim>\<open>None\<close> until one is given.
\<close>

record manager =
  continue :: bool
  devices :: "device list"
  controller :: "controller option"

definition LightingManager :: "controller option \<Rightarrow> manager" where
  "LightingManager initial_controller =
     \<lparr>continue = False, devices = [], controller = initial_controller\<rparr>"


text \<open>\<^verbatim>\<open>set_controller\<close> keeps the old controller when its argument is no \<^verbatim>\<open>LightingController\<close>.\<close>

definition set_controller :: "manager \<Rightarrow> controller option \<Rightarrow> manager" where
  "set_controller m c = (case c of None \<Rightarrow> m | Some c' \<Rightarrow> m\<lparr>controller := Some c'\<rparr>)"

text \<open>
  The argument of a setter is a number: an integer or a float, and a float may be an
  infinity or NaN. A comparison with NaN is false. \<^verbatim>\<open>int(x)\<close> truncates a finite float,
  raises \<^verbatim>\<open>OverflowError\<close> on an infinity and \<^verbatim>\<open>ValueError\<close> on NaN.
\<close>

datatype pynum = NInt int | NFloat rat | NInf | NNegInf | NNan

fun num_less :: "pynum \<Rightarrow> int \<Rightarrow> bool" where
  "num_less (NInt i) k = (i < k)"
| "num_less (NFloat q) k = (q < of_int k)"
| "num_less NInf k = False"
| "num_less NNegInf k = True"
| "num_less NNan k = False"

fun num_greater :: "pynum \<Rightarrow> int \<Rightarrow> bool" where
  "num_greater (NInt i) k = (k < i)"
| "num_greater (NFloat q) k = (of_int k < q)"
| "num_greater NInf k = True"
| "num_greater NNegInf k = False"
| "num_greater NNan k = False"

fun int_of_num :: "pynum \<Rightarrow> error + int" where
  "int_of_num (NInt i) = Inr i"
| "int_of_num (NFloat q) = Inr (py_int q)"
| "int_of_num NInf = Inl OverflowError"
| "int_of_num NNegInf = Inl OverflowError"
| "int_of_num NNan = Inl ValueError"

text \<open>The two reassignments of \<^verbatim>\<open>brightness\<close> at the head of \<^verbatim>\<open>set_brightness\<close>.\<close>

definition clamp_brightness :: "pynum \<Rightarrow> pynum" where
  "clamp_brightness brightness =
     (if num_less brightness 0 then NInt 0
      else if num_greater brightness 300 then NInt 300
      else brightness)"

text \<open>
  An assignment evaluates its right-hand side first, so \<^verbatim>\<open>int(...)\<close> raises before the
  attribute of the controller is stored; an attribute of \<^verbatim>\<open>None\<close> raises
  \<^verbatim>\<open>AttributeError\<close>.
\<close>

definition set_brightness :: "manager \<Rightarrow> pynum \<Rightarrow> error + manager" where
  "set_brightness m brightness =
     bind_err (int_of_num (clamp_brightness brightness)) (\<lambda>level.
       case controller m of
         None \<Rightarrow> Inl AttributeError
       | Some c \<Rightarrow> Inr (m\<lparr>controller := Some (c\<lparr>brightness_level := level\<rparr>)\<rparr>))"

definition set_light_update_msec :: "manager \<Rightarrow> pynum \<Rightarrow> error + manager" where
  "set_light_update_msec m sec =
     (if num_greater sec 0 then
        bind_err (int_of_num sec) (\<lambda>msec.
          case controller m of
            None \<Rightarrow> Inl AttributeError
          | Some c \<Rightarrow> Inr (m\<lparr>controller := Some (c\<lparr>update_msec := msec\<rparr>)\<rparr>))
      else Inr m)"

text \<open>
  The loop \<^verbatim>\<open>for dev in self._devices\<close> of \<^verbatim>\<open>_main_loop\<close>: \<open>done\<close> are the devices already
  served, in order, and the result carries the last \<^verbatim>\<open>next_poll_msec\<close>.
\<close>

fun device_loop ::
  "hue \<Rightarrow> controller \<Rightarrow> device list \<Rightarrow> device list \<Rightarrow> int \<Rightarrow> error + (controller \<times> device list \<times> int)"
where
  "device_loop compass_to_rgb c [] served next_poll_msec = Inr (c, served, next_poll_msec)"
| "device_loop compass_to_rgb c (dev # devs) served next_poll_msec =
     bind_err (main compass_to_rgb c dev) (\<lambda>((data, msec), c').
       device_loop compass_to_rgb c' devs (served @ [set_lighting dev data]) msec)"

text \<open>
  One iteration of \<^verbatim>\<open>while self._continue\<close>: the manager after it and the interval, in
  milliseconds, the thread then sleeps.
\<close>

definition loop_body ::
  "hue \<Rightarrow> (string \<rightharpoonup> rat list) \<Rightarrow> manager \<Rightarrow> int \<Rightarrow> error + (manager \<times> int)"
where
  "loop_body compass_to_rgb sensors m next_poll_msec =
     (case controller m of
        None \<Rightarrow> Inl AttributeError
      | Some c \<Rightarrow>
          bind_err (begin_all sensors (lighting_effect c)) (\<lambda>e.
            bind_err (device_loop compass_to_rgb (c\<lparr>lighting_effect := e\<rparr>) (devices m) [] next_poll_msec)
              (\<lambda>(c', devs, msec). Inr (m\<lparr>devices := devs, controller := Some c'\<rparr>, msec))))"

section \<open>The factory\<close>




section \<open>Sequences of calls\<close>

text \<open>
  The calls an effect receives, in any order, and the colours its \<^verbatim>\<open>next\<close> calls return:
  the run stops at the first exception.
\<close>

datatype call = Next | BeginDev | BeginAll

fun run_calls ::
  "hue \<Rightarrow> (string \<rightharpoonup> rat list) \<Rightarrow> effect \<Rightarrow> call list \<Rightarrow> error + (rgb list \<times> effect)"
where
  "run_calls compass_to_rgb sensors e [] = Inr ([], e)"
| "run_calls compass_to_rgb sensors e (Next # cs) =
     bind_err (effect_next compass_to_rgb e) (\<lambda>(colour, e').
       bind_err (run_calls compass_to_rgb sensors e' cs) (\<lambda>(colours, e'').
         Inr (colour # colours, e'')))"
| "run_calls compass_to_rgb sensors e (BeginDev # cs) =
     run_calls compass_to_rgb sensors (begin_dev e) cs"
| "run_calls compass_to_rgb sensors e (BeginAll # cs) =
     bind_err (begin_all sensors e) (\<lambda>e'. run_calls compass_to_rgb sensors e' cs)"







section \<open>Channels that fit a byte\<close>






section \<open>Properties of the rounding\<close>

text \<open>
  \<open>floor_log2\<close> is the binary exponent, \<open>fl\<close> is monotone, keeps the sign and leaves
  an integer below \<open>2 ^ 53\<close> as it is.
\<close>

lemma bitlen_powi_bounds:
  assumes "0 < a"
  shows "(2::rat) powi (bitlen a - 1) \<le> of_int a" and "of_int a < (2::rat) powi bitlen a"
proof -
  have ge1: "1 \<le> bitlen a" using assms by (simp add: bitlen_alt_def)
  have b: "2 ^ nat (bitlen a - 1) \<le> a" "a < 2 ^ nat (bitlen a)"
    using bitlen_bounds[OF assms] by simp_all
  have "(of_int (2 ^ nat (bitlen a - 1)) :: rat) \<le> of_int a"
    using b(1) of_int_le_iff by blast
  then show "(2::rat) powi (bitlen a - 1) \<le> of_int a"
    using ge1 by (simp add: power_int_def)
  have "(of_int a :: rat) < of_int (2 ^ nat (bitlen a))"
    using b(2) of_int_less_iff by blast
  then show "of_int a < (2::rat) powi bitlen a"
    using ge1 by (simp add: power_int_def)
qed

lemma floor_log2_bounds:
  assumes "0 < q"
  shows "2 powi floor_log2 q \<le> q" and "q < 2 powi (floor_log2 q + 1)"
proof -
  obtain a b where ab: "quotient_of q = (a, b)" by fastforce
  have b: "0 < b" using quotient_of_denom_pos[OF ab] .
  have q: "q = of_int a / of_int b" using quotient_of_div[OF ab] .
  have a: "0 < a" using assms q b by (simp add: zero_less_divide_iff)
  define k where "k = bitlen a - bitlen b"
  have up: "q < 2 powi (k + 1)"
  proof -
    have "of_int a < (2::rat) powi bitlen a" using bitlen_powi_bounds(2)[OF a] .
    also have "\<dots> = 2 powi (k + 1) * 2 powi (bitlen b - 1)"
      by (simp add: k_def flip: power_int_add)
    also have "\<dots> \<le> 2 powi (k + 1) * of_int b"
      using bitlen_powi_bounds(1)[OF b] by (simp add: mult_left_mono)
    finally show ?thesis using b by (simp add: q pos_divide_less_eq)
  qed
  have lo: "2 powi (k - 1) \<le> q"
  proof -
    have "2 powi (k - 1) * of_int b \<le> 2 powi (k - 1) * (2::rat) powi bitlen b"
      using bitlen_powi_bounds(2)[OF b] by (simp add: mult_left_mono)
    also have "\<dots> = 2 powi (bitlen a - 1)"
      by (simp add: k_def flip: power_int_add)
    also have "\<dots> \<le> of_int a" using bitlen_powi_bounds(1)[OF a] .
    finally show ?thesis using b by (simp add: q pos_le_divide_eq)
  qed
  have fl2: "floor_log2 q = (if 2 powi k \<le> q then k else k - 1)"
    by (simp add: floor_log2_def ab k_def Let_def)
  show "2 powi floor_log2 q \<le> q" using lo by (simp add: fl2)
  show "q < 2 powi (floor_log2 q + 1)" using up by (auto simp add: fl2)
qed

lemma powi2_less_imp_less:
  assumes "(2::rat) powi e < 2 powi f"
  shows "e < f"
proof (rule ccontr)
  assume "\<not> e < f"
  then have "f \<le> e" by simp
  then have "(2::rat) powi f \<le> 2 powi e" by (intro power_int_increasing) simp_all
  with assms show False by simp
qed

lemma floor_log2_unique:
  assumes "2 powi e \<le> q" and "q < 2 powi (e + 1)"
  shows "floor_log2 q = e"
proof -
  have "(0::rat) < 2 powi e" by simp
  then have q: "0 < q" using assms(1) by (rule less_le_trans)
  note b = floor_log2_bounds[OF q]
  have "(2::rat) powi e < 2 powi (floor_log2 q + 1)" using assms(1) b(2) by (rule le_less_trans)
  then have 1: "e < floor_log2 q + 1" by (rule powi2_less_imp_less)
  have "(2::rat) powi floor_log2 q < 2 powi (e + 1)" using b(1) assms(2) by (rule le_less_trans)
  then have 2: "floor_log2 q < e + 1" by (rule powi2_less_imp_less)
  show ?thesis using 1 2 by simp
qed

lemma round_half_even_of_int: "round_half_even (of_int n) = n"
  by (simp add: round_half_even_def)


lemma fl_zero: "fl 0 = 0"
  by (simp add: fl_def)

lemma fl_minus: "fl (- q) = - fl q"
  by (simp add: fl_def Let_def)

lemma fl_pos_eq:
  assumes "0 < q"
  shows "fl q = of_int (round_half_even (q / 2 powi (floor_log2 q - 52))) * 2 powi (floor_log2 q - 52)"
  using assms by (simp add: fl_def Let_def)







lemma fl_of_int_pos:
  assumes "0 < n" and "n < 2 ^ 53"
  shows "fl (of_int n) = of_int n"
proof -
  define q where "q = (of_int n :: rat)"
  have q: "0 < q" using assms(1) by (simp add: q_def)
  have "q < of_int (2 ^ 53)" unfolding q_def using assms(2) by (simp only: of_int_less_iff)
  then have "q < 2 powi 53" by simp
  with floor_log2_bounds(1)[OF q] have "(2::rat) powi floor_log2 q < 2 powi 53"
    by (rule le_less_trans)
  then have "floor_log2 q < 53" by (rule powi2_less_imp_less)
  then have e: "floor_log2 q - 52 = - int (nat (52 - floor_log2 q))" by simp
  define d where "d = nat (52 - floor_log2 q)"
  have s: "q / 2 powi (- int d) = of_int (n * 2 ^ d)"
    by (simp add: q_def power_int_minus field_simps)
  have "fl q = of_int (round_half_even (q / 2 powi (- int d))) * 2 powi (- int d)"
    using fl_pos_eq[OF q] e by (simp only: d_def)
  also have "\<dots> = of_int (n * 2 ^ d) * 2 powi (- int d)"
    by (simp only: s round_half_even_of_int)
  also have "\<dots> = q"
    by (simp add: q_def power_int_minus field_simps)
  finally show ?thesis by (simp only: q_def)
qed

lemma fl_of_int:
  assumes "\<bar>n\<bar> < 2 ^ 53"
  shows "fl (of_int n) = of_int n"
proof -
  consider "0 < n" | "n = 0" | "n < 0" by linarith
  then show ?thesis
  proof cases
    case 1 then show ?thesis using assms by (intro fl_of_int_pos) simp_all
  next
    case 2 then show ?thesis by (simp add: fl_zero)
  next
    case 3
    then have "fl (of_int (- n)) = of_int (- n)" using assms by (intro fl_of_int_pos) simp_all
    then show ?thesis by (simp add: fl_minus)
  qed
qed

text \<open>The floats of the effects: \<^verbatim>\<open>360/12\<close> is 30, and 30 times a counter is exact.\<close>

lemma fl_numeral: "(numeral k :: int) < 2 ^ 53 \<Longrightarrow> fl (numeral k) = numeral k"
  using fl_of_int[of "numeral k"] by simp

lemma py_int_of_int: "py_int (of_int n) = n"
  by (simp add: py_int_def)

lemma step_30: "int_truediv 360 12 = Inr 30"
  by (simp add: int_truediv_def fl_numeral)

lemma float_of_int_exact: "\<bar>n\<bar> < 2 ^ 53 \<Longrightarrow> float_of_int n = of_int n"
  by (simp add: float_of_int_def fl_of_int)

lemma times_30:
  assumes "0 \<le> n" and "n < 2 ^ 48"
  shows "float_mul 30 (float_of_int n) = of_int (30 * n)"
proof -
  have a: "\<bar>n\<bar> < 2 ^ 53" using assms by simp
  have b: "\<bar>30 * n\<bar> < 2 ^ 53" using assms by simp
  have "float_mul 30 (float_of_int n) = fl (of_int (30 * n))"
    by (simp add: float_mul_def float_of_int_exact[OF a])
  then show ?thesis by (simp only: fl_of_int[OF b])
qed

section \<open>The angle of the Temperature effect\<close>

text \<open>
  C1, at the reading midway between the default thresholds: cold 20, target 30, reading
  25. The branch \<^verbatim>\<open>cur_temp < target\<close> computes
  \<^verbatim>\<open>(cold_angle - target_angle) / (target - cold) * (target - cur_temp)\<close>, which is
  \<open>120 / 10 * 5 = 60\<close>: the angle stored is 60, where the interpolation between 240 and
  120 is 180. The branch above the target starts from 120
  (\<^verbatim>\<open>120 - ...\<close>); this one does not add the target angle.
\<close>

theorem temperature_midway_angle:
  "bind_err (TemperatureLightingEffect [PStr ''coretemp''] [])
     (begin_all [''coretemp'' \<mapsto> [25]])
   = Inr (Temperature \<lparr>sensor_name = PStr ''coretemp'', cur_temp = 25, angle = 60,
            cold = PInt 20, target = PInt 30, hot = PInt 60,
            cold_angle = 240, target_angle = 120, hot_angle = 0\<rparr>)"
  by (simp add: TemperatureLightingEffect_def bind_params_def bind_err_def
        temperature_begin_all_def sensor_get_def int_truediv_def float_mul_def float_sub_def
        float_of_int_def fl_numeral)

theorem temperature_midway_angle_witness:
  "\<exists>t. bind_err (TemperatureLightingEffect [PStr ''coretemp''] [])
          (begin_all [''coretemp'' \<mapsto> [25]]) = Inr (Temperature t)
       \<and> cold t = PInt 20 \<and> target t = PInt 30 \<and> cur_temp t = 25
       \<and> angle t = 60 \<and> angle t \<noteq> 180"
  using temperature_midway_angle by simp

section \<open>The table of the RGBSpectrum effect\<close>

text \<open>
  \<^verbatim>\<open>next\<close> increments the counter before it indexes the table, so the \<open>k\<close>-th call of a
  frame reads the index \<open>30 * k\<close>: the first eleven are in the table, the twelfth is 360.
\<close>

lemma rgb_spectrum_next_index:
  assumes "0 \<le> num_iters s" and "num_iters s < 2 ^ 47"
  shows "rgb_spectrum_next s =
           bind_err (py_index (compass_to_rgb_map s) (30 * (num_iters s + 1)))
             (\<lambda>c. Inr (rgb_of c, s\<lparr>num_iters := num_iters s + 1\<rparr>))"
proof -
  have "float_mul 30 (float_of_int (num_iters s + 1)) = of_int (30 * (num_iters s + 1))"
    using assms by (intro times_30) simp_all
  then have idx: "py_int (float_mul 30 (float_of_int (num_iters s + 1))) = 30 * (num_iters s + 1)"
    by (simp only: py_int_of_int)
  show ?thesis
    by (simp add: rgb_spectrum_next_def step_30 bind_err_def Let_def idx)
qed

lemma brightness_processor_rgb_of: "\<exists>xs. brightness_processor c (rgb_of t) = Inr xs"
  by (cases t)
     (simp add: brightness_processor_def rgb_of_def scale_channel_def int_truediv_def bind_err_def)

lemma table_entry:
  fixes h :: hue
  assumes "compass_to_rgb_map s = map (\<lambda>ang. h (of_nat ang)) [0..<360]"
    and "0 \<le> i" and "i < 360"
  shows "py_index (compass_to_rgb_map s) i = Inr (h (of_int i))"
proof -
  have n: "nat i < 360" using assms(2,3) by simp
  then have "[0..<360] ! nat i = nat i" by simp
  moreover have "(of_nat (nat i) :: rat) = of_int i" using assms(2) by simp
  ultimately have "map (\<lambda>ang. h (of_nat ang)) [0..<360] ! nat i = h (of_int i)"
    using n by (simp only: nth_map length_upt minus_nat.diff_0)
  then show ?thesis using assms by (simp add: py_index_def)
qed

lemma table_overflow:
  assumes "length (compass_to_rgb_map s) = 360" and "360 \<le> i"
  shows "py_index (compass_to_rgb_map s) i = Inl IndexError"
  using assms by (simp add: py_index_def)

lemma rgb_spectrum_next_ok:
  fixes h :: hue
  assumes "compass_to_rgb_map s = map (\<lambda>ang. h (of_nat ang)) [0..<360]"
    and "0 \<le> num_iters s" and "num_iters s < 11"
  shows "rgb_spectrum_next s =
           Inr (rgb_of (h (of_int (30 * (num_iters s + 1)))), s\<lparr>num_iters := num_iters s + 1\<rparr>)"
proof -
  have "py_index (compass_to_rgb_map s) (30 * (num_iters s + 1))
          = Inr (h (of_int (30 * (num_iters s + 1))))"
    using assms by (intro table_entry) simp_all
  moreover have "num_iters s < 2 ^ 47" using assms(3) by simp
  ultimately show ?thesis
    using assms(2) by (simp only: rgb_spectrum_next_index) (simp add: bind_err_def)
qed

lemma rgb_spectrum_next_fails:
  assumes "length (compass_to_rgb_map s) = 360"
    and "11 \<le> num_iters s" and "num_iters s < 2 ^ 47"
  shows "rgb_spectrum_next s = Inl IndexError"
proof -
  have "py_index (compass_to_rgb_map s) (30 * (num_iters s + 1)) = Inl IndexError"
    using assms by (intro table_overflow) simp_all
  moreover have "0 \<le> num_iters s" using assms(2) by simp
  ultimately show ?thesis
    using assms(3) by (simp only: rgb_spectrum_next_index) (simp add: bind_err_def)
qed

lemma rgb_spectrum_run:
  assumes "compass_to_rgb_map s = map (\<lambda>ang. h (of_nat ang)) [0..<360]"
    and "num_iters s = int k" and "k + n \<le> 11"
  shows "run_calls h sensors (RGBSpectrum s) (replicate n Next) =
           Inr (map (\<lambda>j. rgb_of (h (of_nat (30 * j)))) [Suc k..<Suc (k + n)],
                RGBSpectrum (s\<lparr>num_iters := int (k + n)\<rparr>))"
  using assms
proof (induction n arbitrary: s k)
  case 0
  then show ?case by simp
next
  case (Suc n)
  let ?s = "s\<lparr>num_iters := num_iters s + 1\<rparr>"
  have nx: "rgb_spectrum_next s = Inr (rgb_of (h (of_int (30 * (num_iters s + 1)))), ?s)"
    using Suc.prems by (intro rgb_spectrum_next_ok) simp_all
  have ih: "run_calls h sensors (RGBSpectrum ?s) (replicate n Next) =
           Inr (map (\<lambda>j. rgb_of (h (of_nat (30 * j)))) [Suc (Suc k)..<Suc (Suc k + n)],
                RGBSpectrum (?s\<lparr>num_iters := int (Suc k + n)\<rparr>))"
    using Suc.prems by (intro Suc.IH) simp_all
  have hd: "(of_int (30 * (num_iters s + 1)) :: rat) = of_nat (30 * Suc k)"
    using Suc.prems(2) by simp
  have up: "[Suc k..<Suc (k + Suc n)] = Suc k # [Suc (Suc k)..<Suc (Suc k + n)]"
    by (simp add: upt_conv_Cons)
  have nx': "rgb_spectrum_next s = Inr (rgb_of (h (of_nat (30 * Suc k))), ?s)"
    using nx by (simp only: hd)
  show ?case
    unfolding up
    by (simp add: nx' ih bind_err_def del: upt_Suc)
qed

lemma rgb_spectrum_run_fails:
  assumes "compass_to_rgb_map s = map (\<lambda>ang. h (of_nat ang)) [0..<360]"
    and "num_iters s = int k" and "k \<le> 11" and "12 \<le> k + n"
  shows "run_calls h sensors (RGBSpectrum s) (replicate n Next) = Inl IndexError"
  using assms
proof (induction n arbitrary: s k)
  case 0
  then show ?case by simp
next
  case (Suc n)
  show ?case
  proof (cases "k = 11")
    case True
    have "rgb_spectrum_next s = Inl IndexError"
      using Suc.prems True by (intro rgb_spectrum_next_fails) simp_all
    then show ?thesis by (simp add: bind_err_def)
  next
    case False
    let ?s = "s\<lparr>num_iters := num_iters s + 1\<rparr>"
    have nx: "rgb_spectrum_next s = Inr (rgb_of (h (of_int (30 * (num_iters s + 1)))), ?s)"
      using Suc.prems False by (intro rgb_spectrum_next_ok) simp_all
    have "run_calls h sensors (RGBSpectrum ?s) (replicate n Next) = Inl IndexError"
      using Suc.prems False by (intro Suc.IH[of ?s "Suc k"]) simp_all
    then show ?thesis by (simp add: nx bind_err_def)
  qed
qed

lemma led_loop_rgb_spectrum_fails:
  assumes "lighting_effect c = RGBSpectrum s"
    and "compass_to_rgb_map s = map (\<lambda>ang. h (of_nat ang)) [0..<360]"
    and "num_iters s = int k" and "k \<le> 11" and "12 \<le> k + n"
  shows "led_loop h n c data = Inl IndexError"
  using assms
proof (induction n arbitrary: c s k data)
  case 0
  then show ?case by simp
next
  case (Suc n)
  show ?case
  proof (cases "k = 11")
    case True
    have "rgb_spectrum_next s = Inl IndexError"
      using Suc.prems True by (intro rgb_spectrum_next_fails) simp_all
    then show ?thesis by (simp add: Suc.prems(1) bind_err_def)
  next
    case False
    let ?s = "s\<lparr>num_iters := num_iters s + 1\<rparr>"
    define col where "col = rgb_of (h (of_int (30 * (num_iters s + 1))))"
    have nx: "rgb_spectrum_next s = Inr (col, ?s)"
      unfolding col_def using Suc.prems False by (intro rgb_spectrum_next_ok) simp_all
    obtain xs where xs: "brightness_processor c col = Inr xs"
      unfolding col_def using brightness_processor_rgb_of by blast
    have "led_loop h n (c\<lparr>lighting_effect := RGBSpectrum ?s\<rparr>) (data @ xs) = Inl IndexError"
      using Suc.prems False by (intro Suc.IH[of _ ?s "Suc k"]) simp_all
    then show ?thesis by (simp add: Suc.prems(1) nx xs bind_err_def)
  qed
qed

text \<open>
  C2, on a device of twelve LEDs. After \<^verbatim>\<open>begin_dev\<close> the first eleven \<^verbatim>\<open>next\<close> calls return
  the table entries of the angles 30, 60, ..., 330, in order; the twelfth call indexes the
  table of 360 entries at 360 and raises \<^verbatim>\<open>IndexError\<close>, and so does \<^verbatim>\<open>main\<close> on the
  device: the bounds error comes with twelve LEDs, not only with more than twelve.
\<close>

theorem rgb_spectrum_twelve_leds:
  "run_calls h sensors (RGBSpectrumLightingEffect h) (BeginDev # replicate 11 Next) =
     Inr (map (\<lambda>j. rgb_of (h (of_nat (30 * j)))) [1..<12],
          RGBSpectrum ((rgb_spectrum_init h)\<lparr>num_iters := 11\<rparr>))
   \<and> run_calls h sensors (RGBSpectrumLightingEffect h) (BeginDev # replicate 12 Next) =
       Inl IndexError
   \<and> main h (LightingController (RGBSpectrumLightingEffect h)) \<lparr>num_leds = 12, lit = []\<rparr> =
       Inl IndexError"
proof -
  let ?s = "(rgb_spectrum_init h)\<lparr>num_iters := 0\<rparr>"
  have t: "compass_to_rgb_map ?s = map (\<lambda>ang. h (of_nat ang)) [0..<360]"
    by (simp add: rgb_spectrum_init_def)
  have n: "num_iters ?s = int 0" by simp
  have a: "run_calls h sensors (RGBSpectrum ?s) (replicate 11 Next) =
           Inr (map (\<lambda>j. rgb_of (h (of_nat (30 * j)))) [Suc 0..<Suc (0 + 11)],
                RGBSpectrum (?s\<lparr>num_iters := int (0 + 11)\<rparr>))"
    using t n by (rule rgb_spectrum_run) simp
  have b: "run_calls h sensors (RGBSpectrum ?s) (replicate 12 Next) = Inl IndexError"
    using t n by (rule rgb_spectrum_run_fails) simp_all
  have c: "led_loop h 12 ((LightingController (RGBSpectrumLightingEffect h))
              \<lparr>lighting_effect := RGBSpectrum ?s\<rparr>) [] = Inl IndexError"
    by (rule led_loop_rgb_spectrum_fails[OF _ t n]) simp_all
  show ?thesis
    using a b c
    by (simp add: RGBSpectrumLightingEffect_def LightingController_def main_def bind_err_def)
qed

theorem rgb_spectrum_twelve_leds_witness:
  "run_calls (\<lambda>a. (\<lfloor>a\<rfloor>, 0, 0)) Map.empty (RGBSpectrumLightingEffect (\<lambda>a. (\<lfloor>a\<rfloor>, 0, 0)))
     (BeginDev # replicate 12 Next) = Inl IndexError
   \<and> main (\<lambda>a. (\<lfloor>a\<rfloor>, 0, 0)) (LightingController (RGBSpectrumLightingEffect (\<lambda>a. (\<lfloor>a\<rfloor>, 0, 0))))
       \<lparr>num_leds = 12, lit = []\<rparr> = Inl IndexError"
  using rgb_spectrum_twelve_leds [of "\<lambda>a. (\<lfloor>a\<rfloor>, 0, 0)" Map.empty] by simp

section \<open>The brightness of a frame\<close>

text \<open>
  \<^verbatim>\<open>int(i/100*self.brightness_level)\<close> rounds twice before it truncates: \<open>29/100\<close> is the
  float just below 0.29, its product with 100 the float just below 29.
\<close>

lemma scale_29: "scale_channel 100 (PInt 29) = Inr 28"
  by code_simp

lemma scale_255: "scale_channel 100 (PInt 255) = Inr 254"
  by code_simp

lemma scale_0: "scale_channel 100 (PInt 0) = Inr 0"
  by (simp add: scale_channel_def bind_err_def int_truediv_def float_mul_def fl_zero py_int_def)

text \<open>
  C3, at the default brightness 100 on a Static effect of the colour (29, 0, 255) and a
  device of one LED: \<^verbatim>\<open>next\<close> returns (0, 29, 255) and the frame is [0, 28, 254], not the
  raw channels [0, 29, 255] that \<open>floor (channel * 100 / 100)\<close> gives.
\<close>

theorem brightness_100_loses_one:
  "main h (LightingController (Static (PInt 29) (PInt 0) (PInt 255))) \<lparr>num_leds = 1, lit = []\<rparr>
   = Inr (([0, 28, 254], 100), LightingController (Static (PInt 29) (PInt 0) (PInt 255)))"
  by (simp add: main_def LightingController_def bind_err_def brightness_processor_def
        scale_29 scale_255 scale_0)

theorem brightness_100_loses_one_witness:
  "fst (fst (projr (main (\<lambda>a. (0, 0, 0)) (LightingController (Static (PInt 29) (PInt 0) (PInt 255)))
      \<lparr>num_leds = 1, lit = []\<rparr>))) = [0, 28, 254]"
  using brightness_100_loses_one [of "\<lambda>a. (0, 0, 0)"] by simp

section \<open>The values a sink receives\<close>





















section \<open>The alternating effect\<close>

text \<open>
  Whatever the flag is, a run of calls returns the two colours in turn: \<^verbatim>\<open>begin_dev\<close> and
  \<^verbatim>\<open>begin_all\<close> are inherited no-ops and leave the flag alone.
\<close>

lemma alternating_run:
  "run_calls h s (Alternating a) cs =
     Inr (map (\<lambda>i. if even i = odd_flag a then (odd_g a, odd_r a, odd_b a)
                     else (even_g a, even_r a, even_b a)) [0..<count_list cs Next],
          Alternating (a\<lparr>odd_flag := (odd_flag a = even (count_list cs Next))\<rparr>))"
proof (induction cs arbitrary: a)
  case Nil
  show ?case by simp
next
  case (Cons c cs)
  show ?case
  proof (cases c)
    case Next
    show ?thesis
      by (simp add: Next Cons.IH bind_err_def upt_conv_Cons[of 0] map_Suc_upt[symmetric]
               del: upt_Suc)
  next
    case BeginDev
    show ?thesis by (simp add: BeginDev Cons.IH)
  next
    case BeginAll
    show ?thesis by (simp add: BeginAll Cons.IH bind_err_def)
  qed
qed

text \<open>
  C5. A freshly constructed Alternating effect, given the even matrix \<open>(er, eg, eb)\<close> and
  the odd matrix \<open>(pr, pg, pb)\<close>, answers any sequence of calls without an exception, and
  its \<^verbatim>\<open>next\<close> calls return the odd colour, the even colour, the odd colour, and so on,
  each with the first two channels swapped, as many as there are \<^verbatim>\<open>next\<close> calls: the
  \<^verbatim>\<open>begin_dev\<close> and \<^verbatim>\<open>begin_all\<close> calls in between change nothing.
\<close>

theorem alternating_sequence:
  "\<exists>e'. bind_err (AlternatingLightingEffect [PSeq [er, eg, eb], PSeq [pr, pg, pb]] [])
           (\<lambda>fresh. run_calls compass_to_rgb sensors fresh cs) =
         Inr (map (\<lambda>i. if even i then (pg, pr, pb) else (eg, er, eb)) [0..<count_list cs Next], e')"
  by (simp add: AlternatingLightingEffect_def bind_params_def bind_err_def alternating_run)

theorem alternating_sequence_witness:
  "\<exists>e'. bind_err (AlternatingLightingEffect
                    [PSeq [PInt 1, PInt 2, PInt 3], PSeq [PInt 4, PInt 5, PInt 6]] [])
           (\<lambda>fresh. run_calls (\<lambda>a. (0, 0, 0)) Map.empty fresh
                       [Next, BeginDev, Next, BeginAll, Next]) =
         Inr ([(PInt 5, PInt 4, PInt 6), (PInt 2, PInt 1, PInt 3), (PInt 5, PInt 4, PInt 6)], e')"
  using alternating_sequence [of "PInt 1" "PInt 2" "PInt 3" "PInt 4" "PInt 5" "PInt 6"
      "\<lambda>a. (0, 0, 0)" Map.empty "[Next, BeginDev, Next, BeginAll, Next]"]
  by (simp add: upt_conv_Cons)

section \<open>The rotation of the SpinningRGBSpectrum effect\<close>

lemma spinning_next_angle:
  assumes "0 \<le> num_iters s" and "num_iters s < 2 ^ 47" and "0 \<le> rotation s" and "rotation s \<le> 12"
  shows "spinning_next h s =
           Inr (rgb_of (h (of_int (30 * (num_iters s + 1) + 30 * rotation s))),
                s\<lparr>num_iters := num_iters s + 1\<rparr>)"
proof -
  have a: "float_mul 30 (float_of_int (num_iters s + 1)) = of_int (30 * (num_iters s + 1))"
    using assms by (intro times_30) simp_all
  have b: "float_mul 30 (float_of_int (rotation s)) = of_int (30 * rotation s)"
    using assms by (intro times_30) simp_all
  have "\<bar>30 * (num_iters s + 1) + 30 * rotation s\<bar> < 2 ^ 53" using assms by simp
  then have "fl (of_int (30 * (num_iters s + 1) + 30 * rotation s))
             = of_int (30 * (num_iters s + 1) + 30 * rotation s)"
    by (rule fl_of_int)
  then have c: "float_add (of_int (30 * (num_iters s + 1))) (of_int (30 * rotation s))
             = of_int (30 * (num_iters s + 1) + 30 * rotation s)"
    by (simp add: float_add_def)
  have ang: "float_add (float_mul 30 (float_of_int (num_iters s + 1)))
                      (float_mul 30 (float_of_int (rotation s)))
             = of_int (30 * (num_iters s + 1) + 30 * rotation s)"
    by (simp only: a b c)
  show ?thesis
    by (simp add: spinning_next_def step_30 bind_err_def Let_def ang)
qed

lemma spinning_rounds:
  "rotation s = 0 \<Longrightarrow>
   \<exists>s'. run_calls h sensors (SpinningRGBSpectrum s) (replicate (Suc k) BeginAll)
          = Inr ([], SpinningRGBSpectrum s') \<and> rotation s' = int (k mod 12) + 1"
proof -
  have gen: "\<And>s. 0 \<le> rotation s \<Longrightarrow> rotation s \<le> 12 \<Longrightarrow>
     \<exists>s'. run_calls h sensors (SpinningRGBSpectrum s) (replicate n BeginAll)
          = Inr ([], SpinningRGBSpectrum s')
        \<and> rotation s' = (if n = 0 then rotation s else (rotation s + int n - 1) mod 12 + 1)" for n
  proof (induction n)
    case 0
    show ?case by simp
  next
    case (Suc n)
    let ?s = "spinning_begin_all s"
    have r: "rotation ?s = (if rotation s > 11 then 1 else rotation s + 1)"
      by (simp add: spinning_begin_all_def Let_def)
    have "0 \<le> rotation ?s" "rotation ?s \<le> 12" using Suc.prems by (simp_all add: r)
    from Suc.IH[OF this] obtain s' where
      s': "run_calls h sensors (SpinningRGBSpectrum ?s) (replicate n BeginAll)
            = Inr ([], SpinningRGBSpectrum s')"
      "rotation s' = (if n = 0 then rotation ?s else (rotation ?s + int n - 1) mod 12 + 1)"
      by blast
    have "rotation s' = (rotation s + int (Suc n) - 1) mod 12 + 1"
    proof (cases "rotation s > 11")
      case True
      then have "rotation s = 12" using Suc.prems by simp
      then show ?thesis using s'(2) by (simp add: r; presburger)
    next
      case False
      then show ?thesis using s'(2) Suc.prems by (simp add: r; presburger)
    qed
    then show ?case using s'(1) by (simp add: bind_err_def)
  qed
  assume "rotation s = 0"
  then show ?thesis using gen[of s "Suc k"] by (simp add: zmod_int)
qed

text \<open>
  C6. From a freshly constructed SpinningRGBSpectrum effect the rotation after the
  \<open>(k + 1)\<close>-th \<^verbatim>\<open>begin_all\<close> is \<open>k mod 12 + 1\<close>: it runs 1, 2, ..., 12, 1, 2, ... and is
  never 0. With a rotation in [0, 12] and a counter below \<open>2 ^ 47\<close> (the float products
  are exact there), \<^verbatim>\<open>next\<close> increments the counter and returns \<^verbatim>\<open>compass_to_rgb\<close> of
  30 times the new counter plus 30 times the rotation, without reading the table.
\<close>

theorem spinning_rotation_and_angle:
  "(\<exists>s'. run_calls h sensors (SpinningRGBSpectrumLightingEffect h) (replicate (Suc k) BeginAll)
           = Inr ([], SpinningRGBSpectrum s') \<and> rotation s' = int (k mod 12) + 1)
   \<and> (0 \<le> num_iters s \<and> num_iters s < 2 ^ 47 \<and> 0 \<le> rotation s \<and> rotation s \<le> 12 \<longrightarrow>
        effect_next h (SpinningRGBSpectrum s) =
          Inr (rgb_of (h (of_int (30 * (num_iters s + 1) + 30 * rotation s))),
               SpinningRGBSpectrum (s\<lparr>num_iters := num_iters s + 1\<rparr>)))"
proof -
  have "\<exists>s'. run_calls h sensors (SpinningRGBSpectrumLightingEffect h) (replicate (Suc k) BeginAll)
           = Inr ([], SpinningRGBSpectrum s') \<and> rotation s' = int (k mod 12) + 1"
    unfolding SpinningRGBSpectrumLightingEffect_def by (rule spinning_rounds) simp
  moreover have "0 \<le> num_iters s \<and> num_iters s < 2 ^ 47 \<and> 0 \<le> rotation s \<and> rotation s \<le> 12 \<longrightarrow>
        effect_next h (SpinningRGBSpectrum s) =
          Inr (rgb_of (h (of_int (30 * (num_iters s + 1) + 30 * rotation s))),
               SpinningRGBSpectrum (s\<lparr>num_iters := num_iters s + 1\<rparr>))"
    by (simp add: spinning_next_angle bind_err_def del: of_int_add of_int_mult)
  ultimately show ?thesis by (rule conjI)
qed

theorem spinning_rotation_and_angle_witness:
  "(\<exists>s'. run_calls (\<lambda>a. (\<lfloor>a\<rfloor>, 0, 0)) Map.empty
            (SpinningRGBSpectrumLightingEffect (\<lambda>a. (\<lfloor>a\<rfloor>, 0, 0))) (replicate 13 BeginAll)
           = Inr ([], SpinningRGBSpectrum s') \<and> rotation s' = 1)
   \<and> effect_next (\<lambda>a. (\<lfloor>a\<rfloor>, 0, 0))
        (SpinningRGBSpectrum \<lparr>num_iters = 2, compass_to_rgb_map = [], rotation = 12\<rparr>) =
          Inr ((PInt 450, PInt 0, PInt 0),
               SpinningRGBSpectrum \<lparr>num_iters = 3, compass_to_rgb_map = [], rotation = 12\<rparr>)"
  using spinning_rotation_and_angle [of "\<lambda>a. (\<lfloor>a\<rfloor>, 0, 0)" Map.empty 12
      "\<lparr>num_iters = 2, compass_to_rgb_map = [], rotation = 12\<rparr>"]
  by (simp add: rgb_of_def)

section \<open>The setters\<close>

text \<open>
  What \<^verbatim>\<open>int(...)\<close> gets from the two setters: a brightness that is not NaN is converted,
  after the clamp, to an integer within [0, 300]; an interval above 0 that is not the
  infinity is converted to an integer that is at least 0, and at least 1 unless the
  interval is below 1.
\<close>

lemma clamp_brightness_int:
  assumes "brightness \<noteq> NNan"
  shows "\<exists>level. int_of_num (clamp_brightness brightness) = Inr level \<and> 0 \<le> level \<and> level \<le> 300"
proof (cases brightness)
  case (NInt i)
  then show ?thesis by (simp add: clamp_brightness_def)
next
  case (NFloat q)
  have "0 \<le> q \<Longrightarrow> q \<le> 300 \<Longrightarrow> \<lfloor>q\<rfloor> \<le> 300" by (simp add: floor_le_iff)
  then show ?thesis using NFloat by (auto simp add: clamp_brightness_def py_int_def)
next
  case NInf
  then show ?thesis by (simp add: clamp_brightness_def)
next
  case NNegInf
  then show ?thesis by (simp add: clamp_brightness_def)
next
  case NNan
  then show ?thesis using assms by simp
qed

lemma interval_int:
  assumes "num_greater sec 0" and "sec \<noteq> NInf"
  shows "\<exists>msec. int_of_num sec = Inr msec \<and> 0 \<le> msec \<and> (\<not> num_less sec 1 \<longrightarrow> 0 < msec)"
proof (cases sec)
  case (NInt i)
  then show ?thesis using assms by simp
next
  case (NFloat q)
  have "1 \<le> q \<Longrightarrow> 0 < \<lfloor>q\<rfloor>" by (simp add: less_floor_iff)
  then show ?thesis using NFloat assms by (auto simp add: py_int_def)
next
  case NInf
  then show ?thesis using assms by simp
next
  case NNegInf
  then show ?thesis using assms by simp
next
  case NNan
  then show ?thesis using assms by simp
qed








section \<open>The factory and its identifier\<close>














section \<open>A sensor without a reading\<close>





section \<open>A manager without a controller\<close>

text \<open>
  C10. A manager constructed without an initial controller has \<^verbatim>\<open>_controller = None\<close>:
  the brightness setter, the refresh-interval setter with an argument above 0 and an
  iteration of the loop body each raise an exception; nothing is clamped, stored, ignored
  or skipped. The exception is the \<^verbatim>\<open>AttributeError\<close> of the absent controller, but for the
  two arguments that \<^verbatim>\<open>int(...)\<close> refuses before the store is reached: the brightness NaN
  and the infinite interval.
\<close>

theorem no_controller_raises:
  assumes "controller m = None" and "num_greater sec 0"
  shows "set_brightness m brightness
           = Inl (if brightness = NNan then ValueError else AttributeError)
       \<and> set_light_update_msec m sec
           = Inl (if sec = NInf then OverflowError else AttributeError)
       \<and> loop_body compass_to_rgb sensors m next_poll_msec = Inl AttributeError"
proof -
  have 1: "set_brightness m brightness
             = Inl (if brightness = NNan then ValueError else AttributeError)"
  proof (cases "brightness = NNan")
    case True
    then show ?thesis by (simp add: set_brightness_def clamp_brightness_def bind_err_def)
  next
    case False
    from clamp_brightness_int[OF False] show ?thesis
      using assms(1) False by (auto simp add: set_brightness_def bind_err_def)
  qed
  have 2: "set_light_update_msec m sec
             = Inl (if sec = NInf then OverflowError else AttributeError)"
  proof (cases "sec = NInf")
    case True
    then show ?thesis by (simp add: set_light_update_msec_def bind_err_def)
  next
    case False
    from interval_int[OF assms(2) False] show ?thesis
      using assms False by (auto simp add: set_light_update_msec_def bind_err_def)
  qed
  have 3: "loop_body compass_to_rgb sensors m next_poll_msec = Inl AttributeError"
    using assms(1) by (simp add: loop_body_def)
  show ?thesis using 1 2 3 by simp
qed

theorem no_controller_raises_witness:
  "controller (LightingManager None) = None \<and> num_greater (NInt 50) 0
   \<and> set_brightness (LightingManager None) (NInt 150) = Inl AttributeError
   \<and> set_light_update_msec (LightingManager None) (NInt 50) = Inl AttributeError
   \<and> loop_body (\<lambda>a. (0, 0, 0)) Map.empty (LightingManager None) 1 = Inl AttributeError"
proof -
  have c: "controller (LightingManager None) = None" by (simp add: LightingManager_def)
  have p: "num_greater (NInt 50) 0" by simp
  show ?thesis
    using c p no_controller_raises [OF c p, of "NInt 150" "\<lambda>a. (0, 0, 0)" Map.empty 1] by simp
qed

end
